theory Spec2Isabelle
  imports Complex_Main
begin

section \<open>The dashboard (Dashboard component): filter engine, update coordinator, pulls\<close>

subsection \<open>Data\<close>

text \<open>
  A JavaScript number is modelled by the real number it denotes; \<open>NaN\<close> does not occur
  in decoded JSON.  A numeric field of a delivered record may be absent, in which case
  reading it gives \<open>undefined\<close>: such a field is a \<open>real option\<close>, \<open>None\<close> being
  \<open>undefined\<close>.  Only the fields the modelled code reads are kept.
\<close>

record Signal =
  score :: "real option"
  volume_24h :: "real option"
  liquidity :: "real option"
  whale_count :: "real option"
  unique_whale_count :: "real option"
  spread :: "real option"
  hours_remaining :: "real option"
  level :: string

record ScannerSettings =
  minWhaleCount :: real
  minUniqueWhales :: real
  minVolumeUsd :: real
  minLiquidity :: real
  maxSpread :: real
  maxTimeHours :: real
  minNewsCount :: real
  minScore :: real
  showWatchLevel :: bool

record WhaleTrade =
  trade_id :: string
  trader :: string
  size_usd :: real

record ArbitrageOpportunity =
  opportunity_id :: string

datatype tab = scanner | equilibrage | hot | quant | contrarian

text \<open>
  The relational operators of JavaScript on a possibly undefined left operand:
  \<open>undefined < x\<close> and \<open>undefined > x\<close> are both false.
\<close>

definition js_lt :: "real option \<Rightarrow> real \<Rightarrow> bool" where
  "js_lt a b = (case a of None \<Rightarrow> False | Some x \<Rightarrow> x < b)"

definition js_gt :: "real option \<Rightarrow> real \<Rightarrow> bool" where
  "js_gt a b = (case a of None \<Rightarrow> False | Some x \<Rightarrow> x > b)"

text \<open>\<open>n || 0\<close> on a number: the number itself unless it is falsy (zero).\<close>

definition or_zero :: "real \<Rightarrow> real" where
  "or_zero n = (if n \<noteq> 0 then n else 0)"

text \<open>Truthiness of a value of type \<open>string | null\<close>.\<close>

definition truthy_str :: "string option \<Rightarrow> bool" where
  "truthy_str e = (case e of None \<Rightarrow> False | Some s \<Rightarrow> s \<noteq> [])"

subsection \<open>Filter engine: \<open>filteredSignals\<close>\<close>

text \<open>
  The callback given to \<open>signals.filter\<close>, with the component state it closes over
  (\<open>activeTab\<close>, \<open>hotSettings.strategy\<close>, \<open>activeSettings\<close>) as arguments.  The
  checks are in the order of the source; each \<open>return false\<close> is one \<open>False\<close> branch.
\<close>

definition signal_visible :: "tab \<Rightarrow> string \<Rightarrow> ScannerSettings \<Rightarrow> Signal \<Rightarrow> bool" where
  "signal_visible activeTab strategy activeSettings signal =
    (if js_lt (score signal) (minScore activeSettings) then False
     else if js_lt (volume_24h signal) (minVolumeUsd activeSettings) then False
     else if js_lt (liquidity signal) (minLiquidity activeSettings) then False
     else
       (let isProInsights = (activeTab = hot);
            isWhaleStrategy = (isProInsights \<and> strategy = ''whale'');
            isScalpStrategy = (isProInsights \<and> strategy = ''scalp'')
        in
          if (\<not> isProInsights \<or> isWhaleStrategy)
              \<and> js_lt (whale_count signal) (minWhaleCount activeSettings) then False
          else if (\<not> isProInsights \<or> isWhaleStrategy)
              \<and> js_lt (unique_whale_count signal) (or_zero (minUniqueWhales activeSettings))
            then False
          else if \<not> isScalpStrategy \<and> maxSpread activeSettings > 0
              \<and> js_gt (spread signal) (maxSpread activeSettings) then False
          else if maxTimeHours activeSettings > 0
              \<and> js_gt (hours_remaining signal) (maxTimeHours activeSettings) then False
          else if \<not> showWatchLevel activeSettings \<and> level signal = ''watch'' then False
          else True))"

definition filteredSignals :: "tab \<Rightarrow> string \<Rightarrow> ScannerSettings \<Rightarrow> Signal list \<Rightarrow> Signal list" where
  "filteredSignals activeTab strategy activeSettings signals =
     filter (signal_visible activeTab strategy activeSettings) signals"

subsection \<open>Component state\<close>

text \<open>
  The \<open>useState\<close> cells of \<open>Dashboard\<close> that the modelled handlers read or write.
  \<open>lastUpdate\<close> holds the time of \<open>new Date()\<close>, passed in as a number.
\<close>

record dashboard =
  signals :: "Signal list"
  arbitrageOpps :: "ArbitrageOpportunity list"
  isLive :: bool
  isLoading :: bool
  error :: "string option"
  lastUpdate :: "nat option"
  whaleTrades :: "WhaleTrade list"
  activeTab :: tab
  hotStrategy :: string

subsection \<open>Push handlers: \<open>onSignalsUpdate\<close>, \<open>onWhaleTrade\<close>\<close>

definition onSignalsUpdate ::
  "nat \<Rightarrow> Signal list \<Rightarrow> bool \<Rightarrow> real option \<Rightarrow> string option \<Rightarrow> dashboard \<Rightarrow> dashboard" where
  "onSignalsUpdate now newSignals cached cacheAge wsError d =
    (if activeTab d \<noteq> scanner then d
     else if isLive d \<and> length newSignals > 0 then
       (let d1 = d\<lparr>signals := newSignals, lastUpdate := Some now\<rparr>
        in if truthy_str wsError then d1\<lparr>error := wsError\<rparr> else d1)
     else d)"

text \<open>\<open>prev => [trade, ...prev].slice(0, 20)\<close>: the state updater of the buffer.\<close>

definition whale_buffer_update :: "'a \<Rightarrow> 'a list \<Rightarrow> 'a list" where
  "whale_buffer_update trade prev = take 20 (trade # prev)"

definition onWhaleTrade :: "WhaleTrade \<Rightarrow> dashboard \<Rightarrow> dashboard" where
  "onWhaleTrade trade d = d\<lparr>whaleTrades := whale_buffer_update trade (whaleTrades d)\<rparr>"

text \<open>A sequence of whale-trade events, oldest first.\<close>

fun onWhaleTrades :: "WhaleTrade list \<Rightarrow> dashboard \<Rightarrow> dashboard" where
  "onWhaleTrades [] d = d"
| "onWhaleTrades (t # ts) d = onWhaleTrades ts (onWhaleTrade t d)"

subsection \<open>Pull: \<open>fetchSignals\<close>\<close>

text \<open>
  What the two awaits of \<open>fetchSignals\<close> can produce.  \<open>fetch\<close> either rejects with a
  thrown value or resolves to a response with a status; \<open>response.json()\<close> either
  rejects or resolves to the decoded body.  The body is taken at the shape the
  endpoints declare: an object with an optional \<open>error\<close> string, an optional
  \<open>signals\<close> field and an optional \<open>opportunities\<close> field; for the latter two,
  \<open>None\<close> stands for a value that is absent or not an array.
\<close>

datatype thrown = ErrorObject string | NotAnError

record pull_body =
  body_error :: "string option"
  body_signals :: "Signal list option"
  body_opportunities :: "ArbitrageOpportunity list option"

datatype json_result = JsonRejected thrown | JsonBody pull_body

datatype fetch_result = FetchRejected thrown | Response nat json_result

definition response_ok :: "nat \<Rightarrow> bool" where
  "response_ok status = (200 \<le> status \<and> status \<le> 299)"

fun starts_with :: "string \<Rightarrow> string \<Rightarrow> bool" where
  "starts_with s [] = True"
| "starts_with [] (c # cs) = False"
| "starts_with (a # as) (c # cs) = (a = c \<and> starts_with as cs)"

text \<open>\<open>String.prototype.includes\<close>: the needle occurs as a contiguous run.\<close>

fun str_includes :: "string \<Rightarrow> string \<Rightarrow> bool" where
  "str_includes [] needle = (needle = [])"
| "str_includes (a # as) needle = (starts_with (a # as) needle \<or> str_includes as needle)"

text \<open>Decimal rendering of a status code inside the template string.\<close>

definition digit_char :: "nat \<Rightarrow> char" where
  "digit_char d = ''0123456789'' ! d"

function string_of_nat :: "nat \<Rightarrow> string" where
  "string_of_nat n = (if n < 10 then [digit_char n]
                      else string_of_nat (n div 10) @ [digit_char (n mod 10)])"
  by pat_completeness auto
termination
  by (relation "measure (\<lambda>n. n)") auto

declare string_of_nat.simps [simp del]

text \<open>The accented letter of the French messages, as its two UTF-8 bytes.\<close>

definition e_acute :: string where
  "e_acute = [char_of (195::nat), char_of (169::nat)]"

definition msg_endpoint_not_found :: string where
  "msg_endpoint_not_found =
     ''Endpoint introuvable. Red'' @ e_acute @ ''marrez le backend (LANCER.command).''"

definition msg_backend_down :: string where
  "msg_backend_down =
     ''Backend non connect'' @ e_acute @ '' ou obsol'' @ [char_of (195::nat), char_of (168::nat)]
       @ ''te. Lancez/Red'' @ e_acute @ ''marrez avec LANCER.command''"

text \<open>The \<open>catch (err)\<close> block of \<open>fetchSignals\<close>.\<close>

definition fetchSignals_catch :: "thrown \<Rightarrow> dashboard \<Rightarrow> dashboard" where
  "fetchSignals_catch err d =
    (let msg = (case err of ErrorObject m \<Rightarrow> m | NotAnError \<Rightarrow> ''Erreur inconnue'')
     in if str_includes msg (''Red'' @ e_acute @ ''marrez'') \<or> str_includes msg ''Failed to fetch''
        then d\<lparr>error := Some msg_backend_down, isLoading := False\<rparr>
        else d\<lparr>error := Some msg, isLoading := False\<rparr>)"

text \<open>
  \<open>fetchSignals\<close>, given the outcome of its network request and the time of
  \<open>new Date()\<close>.  Every \<open>throw\<close> inside the \<open>try\<close> is a call of the catch block.
\<close>

definition fetchSignals :: "nat \<Rightarrow> fetch_result \<Rightarrow> dashboard \<Rightarrow> dashboard" where
  "fetchSignals now outcome d =
    (let d0 = d\<lparr>error := None\<rparr> in
     if activeTab d = hot \<and> hotStrategy d = ''arbitrage'' then
       (case outcome of
          FetchRejected err \<Rightarrow> fetchSignals_catch err d0
        | Response status js \<Rightarrow>
            if response_ok status then
              (case js of
                 JsonRejected err \<Rightarrow> fetchSignals_catch err d0
               | JsonBody arbData \<Rightarrow>
                   (case body_opportunities arbData of
                      Some opps \<Rightarrow> d0\<lparr>arbitrageOpps := opps, isLoading := False\<rparr>
                    | None \<Rightarrow> d0\<lparr>isLoading := False\<rparr>))
            else d0\<lparr>isLoading := False\<rparr>)
     else
       (case outcome of
          FetchRejected err \<Rightarrow> fetchSignals_catch err d0
        | Response status js \<Rightarrow>
            if \<not> response_ok status then
              (if status = 404 then fetchSignals_catch (ErrorObject msg_endpoint_not_found) d0
               else fetchSignals_catch (ErrorObject (''HTTP '' @ string_of_nat status)) d0)
            else
              (case js of
                 JsonRejected err \<Rightarrow> fetchSignals_catch err d0
               | JsonBody data \<Rightarrow>
                   if truthy_str (body_error data) then
                     d0\<lparr>error := body_error data, signals := [], isLoading := False\<rparr>
                   else
                     (case body_signals data of
                        Some sigs \<Rightarrow> d0\<lparr>signals := sigs, lastUpdate := Some now, isLoading := False\<rparr>
                      | None \<Rightarrow> d0\<lparr>isLoading := False\<rparr>))))"

section \<open>The connection hook (\<open>useWebSocket\<close>)\<close>

subsection \<open>Decoded JSON and the values of JavaScript\<close>

text \<open>
  What \<open>JSON.parse\<close> returns, with \<open>undefined\<close> added for the value of a property
  that an object does not have.  An object is the list of its properties, keys distinct.
\<close>

datatype jsval =
  JUndefined
| JNull
| JBool bool
| JNum real
| JStr string
| JArr "jsval list"
| JObj "(string \<times> jsval) list"

fun truthy :: "jsval \<Rightarrow> bool" where
  "truthy JUndefined = False"
| "truthy JNull = False"
| "truthy (JBool b) = b"
| "truthy (JNum n) = (n \<noteq> 0)"
| "truthy (JStr s) = (s \<noteq> [])"
| "truthy (JArr xs) = True"
| "truthy (JObj kvs) = True"

text \<open>\<open>a || b\<close>.\<close>

definition js_or :: "jsval \<Rightarrow> jsval \<Rightarrow> jsval" where
  "js_or a b = (if truthy a then a else b)"

text \<open>
  \<open>v.k\<close> for the keys the hook reads (\<open>type\<close>, \<open>data\<close>, \<open>error\<close>, \<open>message\<close>,
  \<open>signals\<close>, \<open>cached\<close>, \<open>cache_age\<close>): none of them is a property of a number, a
  string, a boolean or an array, so only an object can give a value other than
  \<open>undefined\<close>.  On \<open>null\<close> and \<open>undefined\<close> the access throws; the callers below
  test for these two before they read a property.
\<close>

fun get_prop :: "jsval \<Rightarrow> string \<Rightarrow> jsval" where
  "get_prop (JObj kvs) k = (case map_of kvs k of Some v \<Rightarrow> v | None \<Rightarrow> JUndefined)"
| "get_prop v k = JUndefined"

subsection \<open>Sockets, timers, callbacks\<close>

datatype ready_state = CONNECTING | OPEN | CLOSING | CLOSED

text \<open>
  \<open>UseWebSocketOptions\<close>.  A callback is known by a number, and calling it appends a
  \<open>call\<close> with the arguments to the trace \<open>calls\<close> of the state.
\<close>

record options =
  onSignalsUpdate_cb :: "nat option"
  onWhaleTrade_cb :: "nat option"
  onConnect_cb :: "nat option"
  onDisconnect_cb :: "nat option"

datatype call =
  SignalsUpdateCall nat jsval jsval jsval jsval
| WhaleTradeCall nat jsval
| ConnectCall nat
| DisconnectCall nat

text \<open>The lines written to the console.\<close>

datatype log_entry =
  LogConnected
| LogDisconnected
| LogAcknowledged jsval
| LogUnknownType jsval
| LogParseFailed
| LogReconnecting
| LogSocketError
| LogCreateFailed

text \<open>
  The hook exists in two versions.  In the first the handlers of a socket read the
  callbacks from \<open>callbacksRef.current\<close> when they run, and \<open>connect\<close> closes over
  nothing (\<open>useCallback(..., [])\<close>).  In the second the handlers and the reconnect
  timer close over the \<open>options\<close> of the render that created \<open>connect\<close>
  (\<open>useCallback(..., [options])\<close>).  The closure is the field \<open>closure_options\<close> of a
  socket and the argument of a reconnect timer: \<open>None\<close> in the first version, the
  captured options in the second.
\<close>

record websocket =
  readyState :: ready_state
  closure_options :: "options option"

datatype timer_action = ReconnectTimeout "options option" | PingInterval nat

text \<open>
  The state of one mounted hook: the sockets it has created (a socket is known by its
  position), the three refs, the pending timers of the page as triples of handle, delay
  in milliseconds and action, the two \<open>useState\<close> cells, the pings sent (by socket), the
  trace of callback calls and the console.  \<open>url_ok\<close> says whether
  \<open>new WebSocket(wsUrl)\<close> accepts the address or throws.
\<close>

record hook_state =
  sockets :: "websocket list"
  wsRef :: "nat option"
  reconnectTimeoutRef :: "nat option"
  pingIntervalRef :: "nat option"
  timers :: "(nat \<times> nat \<times> timer_action) list"
  next_timer :: nat
  isConnected :: bool
  connectionError :: "string option"
  callbacksRef :: options
  pings_sent :: "nat list"
  calls :: "call list"
  console :: "log_entry list"
  url_ok :: bool

definition initial_state :: "options \<Rightarrow> bool \<Rightarrow> hook_state" where
  "initial_state opts ok = \<lparr>sockets = [], wsRef = None, reconnectTimeoutRef = None,
     pingIntervalRef = None, timers = [], next_timer = 1, isConnected = False,
     connectionError = None, callbacksRef = opts, pings_sent = [], calls = [], console = [],
     url_ok = ok\<rparr>"

definition socket_state :: "hook_state \<Rightarrow> nat \<Rightarrow> ready_state option" where
  "socket_state s i = (if i < length (sockets s) then Some (readyState (sockets s ! i)) else None)"

text \<open>\<open>wsRef.current?.readyState\<close>.\<close>

definition current_readyState :: "hook_state \<Rightarrow> ready_state option" where
  "current_readyState s = (case wsRef s of None \<Rightarrow> None | Some i \<Rightarrow> socket_state s i)"

definition set_readyState :: "nat \<Rightarrow> ready_state \<Rightarrow> hook_state \<Rightarrow> hook_state" where
  "set_readyState i r s = s\<lparr>sockets := (sockets s)[i := (sockets s ! i)\<lparr>readyState := r\<rparr>]\<rparr>"

text \<open>The callbacks a handler of socket \<open>i\<close> sees when it runs.\<close>

definition callbacks_of :: "hook_state \<Rightarrow> nat \<Rightarrow> options" where
  "callbacks_of s i =
     (if i < length (sockets s) then
        (case closure_options (sockets s ! i) of None \<Rightarrow> callbacksRef s | Some opts \<Rightarrow> opts)
      else callbacksRef s)"

definition socket_closure :: "hook_state \<Rightarrow> nat \<Rightarrow> options option" where
  "socket_closure s i = (if i < length (sockets s) then closure_options (sockets s ! i) else None)"

text \<open>\<open>f?.(args)\<close>: the call is recorded when the callback is registered.\<close>

definition invoke :: "nat option \<Rightarrow> (nat \<Rightarrow> call) \<Rightarrow> hook_state \<Rightarrow> hook_state" where
  "invoke cb mk s = (case cb of None \<Rightarrow> s | Some f \<Rightarrow> s\<lparr>calls := calls s @ [mk f]\<rparr>)"

definition console_log :: "log_entry \<Rightarrow> hook_state \<Rightarrow> hook_state" where
  "console_log e s = s\<lparr>console := console s @ [e]\<rparr>"

text \<open>\<open>setTimeout\<close> and \<open>setInterval\<close> hand out fresh handles from one pool.\<close>

definition set_timer :: "nat \<Rightarrow> timer_action \<Rightarrow> hook_state \<Rightarrow> hook_state" where
  "set_timer delay a s =
     s\<lparr>timers := timers s @ [(next_timer s, delay, a)], next_timer := Suc (next_timer s)\<rparr>"

text \<open>\<open>clearTimeout\<close> and \<open>clearInterval\<close>: a handle that is not pending is ignored.\<close>

definition clear_timer :: "nat \<Rightarrow> hook_state \<Rightarrow> hook_state" where
  "clear_timer t s = s\<lparr>timers := filter (\<lambda>e. fst e \<noteq> t) (timers s)\<rparr>"

text \<open>\<open>if (ref.current) clear(ref.current)\<close>: the ref keeps the handle.\<close>

definition clear_ref :: "nat option \<Rightarrow> hook_state \<Rightarrow> hook_state" where
  "clear_ref r s = (case r of None \<Rightarrow> s | Some t \<Rightarrow> clear_timer t s)"

subsection \<open>\<open>connect\<close> and \<open>disconnect\<close>\<close>

definition connect :: "options option \<Rightarrow> hook_state \<Rightarrow> hook_state" where
  "connect env s =
    (if current_readyState s = Some OPEN then s
     else if url_ok s then
       s\<lparr>sockets := sockets s @ [\<lparr>readyState = CONNECTING, closure_options = env\<rparr>],
         wsRef := Some (length (sockets s))\<rparr>
     else
       (console_log LogCreateFailed s)\<lparr>connectionError := Some ''Failed to connect to WebSocket''\<rparr>)"

text \<open>\<open>ws.close()\<close>: a socket that is connecting or open starts closing.\<close>

definition ws_close :: "nat \<Rightarrow> hook_state \<Rightarrow> hook_state" where
  "ws_close i s =
     (if socket_state s i = Some CONNECTING \<or> socket_state s i = Some OPEN
      then set_readyState i CLOSING s else s)"

definition disconnect :: "hook_state \<Rightarrow> hook_state" where
  "disconnect s =
    (let s1 = clear_ref (reconnectTimeoutRef s) s;
         s2 = clear_ref (pingIntervalRef s1) s1
     in case wsRef s2 of
          None \<Rightarrow> s2
        | Some i \<Rightarrow> (ws_close i s2)\<lparr>wsRef := None\<rparr>)"

subsection \<open>The handlers of a socket\<close>

definition ws_onopen :: "nat \<Rightarrow> hook_state \<Rightarrow> hook_state" where
  "ws_onopen i s =
    (let s1 = (console_log LogConnected s)\<lparr>isConnected := True, connectionError := None\<rparr>;
         s2 = invoke (onConnect_cb (callbacks_of s1 i)) ConnectCall s1
     in (set_timer 25000 (PingInterval i) s2)\<lparr>pingIntervalRef := Some (next_timer s2)\<rparr>)"

definition ws_onmessage :: "nat \<Rightarrow> jsval option \<Rightarrow> hook_state \<Rightarrow> hook_state" where
  "ws_onmessage i parsed s =
    (case parsed of
       None \<Rightarrow> console_log LogParseFailed s
     | Some message \<Rightarrow>
         if message = JNull \<or> message = JUndefined then console_log LogParseFailed s
         else if get_prop message ''type'' = JStr ''signals_update'' then
           (if truthy (get_prop message ''data'') then
              invoke (onSignalsUpdate_cb (callbacks_of s i))
                (\<lambda>f. SignalsUpdateCall f
                   (js_or (get_prop (get_prop message ''data'') ''signals'') (JArr []))
                   (js_or (get_prop (get_prop message ''data'') ''cached'') (JBool False))
                   (js_or (get_prop (get_prop message ''data'') ''cache_age'') JNull)
                   (js_or (get_prop message ''error'') JNull)) s
            else s)
         else if get_prop message ''type'' = JStr ''whale_trade'' then
           (if truthy (get_prop message ''data'') then
              invoke (onWhaleTrade_cb (callbacks_of s i))
                (\<lambda>f. WhaleTradeCall f (get_prop message ''data'')) s
            else s)
         else if get_prop message ''type'' = JStr ''connection_ack'' then
           console_log (LogAcknowledged (get_prop message ''message'')) s
         else if get_prop message ''type'' = JStr ''pong'' then s
         else console_log (LogUnknownType (get_prop message ''type'')) s)"

definition ws_onclose :: "nat \<Rightarrow> hook_state \<Rightarrow> hook_state" where
  "ws_onclose i s =
    (let s1 = (console_log LogDisconnected s)\<lparr>isConnected := False\<rparr>;
         s2 = invoke (onDisconnect_cb (callbacks_of s1 i)) DisconnectCall s1;
         s3 = clear_ref (pingIntervalRef s2) s2
     in (set_timer 5000 (ReconnectTimeout (socket_closure s3 i)) s3)
          \<lparr>reconnectTimeoutRef := Some (next_timer s3)\<rparr>)"

definition ws_onerror :: "nat \<Rightarrow> hook_state \<Rightarrow> hook_state" where
  "ws_onerror i s = (console_log LogSocketError s)\<lparr>connectionError := Some ''WebSocket connection error''\<rparr>"

subsection \<open>Timers\<close>

text \<open>
  The callback of the ping interval of socket \<open>i\<close>, and the callback of a reconnect
  timeout.  A timeout is no longer pending once it has fired; an interval stays.
\<close>

definition ping :: "nat \<Rightarrow> hook_state \<Rightarrow> hook_state" where
  "ping i s = (if socket_state s i = Some OPEN then s\<lparr>pings_sent := pings_sent s @ [i]\<rparr> else s)"

definition fire_timer :: "nat \<Rightarrow> hook_state \<Rightarrow> hook_state" where
  "fire_timer t s =
    (case map_of (timers s) t of
       None \<Rightarrow> s
     | Some (delay, ReconnectTimeout env) \<Rightarrow> connect env (console_log LogReconnecting (clear_timer t s))
     | Some (delay, PingInterval i) \<Rightarrow> ping i s)"

subsection \<open>The effects of the component\<close>

text \<open>
  First version: \<open>useEffect(() => { callbacksRef.current = options }, [options])\<close>.
\<close>

definition set_options :: "options \<Rightarrow> hook_state \<Rightarrow> hook_state" where
  "set_options opts s = s\<lparr>callbacksRef := opts\<rparr>"

text \<open>
  Second version: \<open>connect\<close> depends on \<open>options\<close> and the mount effect depends on
  \<open>connect\<close>.  When a render brings new options, React runs the cleanup of the effect,
  which is \<open>disconnect()\<close>, and then the effect again, which is the new \<open>connect()\<close>.
\<close>

definition options_changed2 :: "options \<Rightarrow> hook_state \<Rightarrow> hook_state" where
  "options_changed2 opts s = connect (Some opts) (disconnect s)"

subsection \<open>The event loop\<close>

text \<open>
  One event of the page.  A call of \<open>connect\<close> (at mount, or through the returned
  \<open>reconnect\<close>) carries the closure of its version; the browser fires \<open>open\<close> on a
  connecting socket, \<open>close\<close> on a socket that is not yet closed, \<open>message\<close> on an
  open socket, and sets \<open>readyState\<close> before the handler runs.  An event that the
  browser cannot produce in a state leaves the state as it is.
\<close>

datatype event =
  Connect "options option"
| Disconnect
| OptionsChanged options
| OptionsChanged2 options
| SocketOpened nat
| SocketMessage nat "jsval option"
| SocketError nat
| SocketClosed nat
| TimerFired nat

fun step :: "event \<Rightarrow> hook_state \<Rightarrow> hook_state" where
  "step (Connect env) s = connect env s"
| "step Disconnect s = disconnect s"
| "step (OptionsChanged opts) s = set_options opts s"
| "step (OptionsChanged2 opts) s = options_changed2 opts s"
| "step (SocketOpened i) s =
     (if socket_state s i = Some CONNECTING then ws_onopen i (set_readyState i OPEN s) else s)"
| "step (SocketMessage i parsed) s =
     (if socket_state s i = Some OPEN then ws_onmessage i parsed s else s)"
| "step (SocketError i) s =
     (if socket_state s i = None \<or> socket_state s i = Some CLOSED then s else ws_onerror i s)"
| "step (SocketClosed i) s =
     (if socket_state s i = None \<or> socket_state s i = Some CLOSED then s
      else ws_onclose i (set_readyState i CLOSED s))"
| "step (TimerFired t) s = fire_timer t s"

fun run :: "event list \<Rightarrow> hook_state \<Rightarrow> hook_state" where
  "run [] s = s"
| "run (e # es) s = run es (step e s)"

text \<open>A channel is live when it is connecting or open.\<close>

definition is_live :: "websocket \<Rightarrow> bool" where
  "is_live w = (readyState w = CONNECTING \<or> readyState w = OPEN)"

definition live_count :: "hook_state \<Rightarrow> nat" where
  "live_count s = length (filter is_live (sockets s))"

text \<open>
  The event calls \<open>connect\<close> while the current socket is still connecting: a direct
  call, or a reconnect timeout that fires.
\<close>

fun opens_while_connecting :: "event \<Rightarrow> hook_state \<Rightarrow> bool" where
  "opens_while_connecting (Connect env) s = (current_readyState s = Some CONNECTING)"
| "opens_while_connecting (TimerFired t) s =
     (case map_of (timers s) t of
        Some (delay, ReconnectTimeout env) \<Rightarrow> current_readyState s = Some CONNECTING
      | _ \<Rightarrow> False)"
| "opens_while_connecting e s = False"

fun never_opens_while_connecting :: "event list \<Rightarrow> hook_state \<Rightarrow> bool" where
  "never_opens_while_connecting [] s = True"
| "never_opens_while_connecting (e # es) s =
     (if opens_while_connecting e s then False else never_opens_while_connecting es (step e s))"

text \<open>
  The invariant behind the single live channel: the current socket exists, and every
  socket other than the current one is closing or closed.
\<close>

definition sockets_inv :: "websocket list \<Rightarrow> nat option \<Rightarrow> bool" where
  "sockets_inv ws r =
     ((case r of None \<Rightarrow> True | Some i \<Rightarrow> i < length ws)
      \<and> (\<forall>j<length ws. r \<noteq> Some j \<longrightarrow> \<not> is_live (ws ! j)))"

definition others_not_live :: "hook_state \<Rightarrow> bool" where
  "others_not_live s = sockets_inv (sockets s) (wsRef s)"

section \<open>Scenario data\<close>

text \<open>
  The profile and the records of the filter scenario.  A record of the scenario carries a
  score, a 24-hour volume and a level; its other numeric fields are absent.
\<close>

definition scenario_profile :: ScannerSettings where
  "scenario_profile = \<lparr>minWhaleCount = 0, minUniqueWhales = 0, minVolumeUsd = 1000,
     minLiquidity = 0, maxSpread = 0, maxTimeHours = 0, minNewsCount = 0, minScore = 5,
     showWatchLevel = False\<rparr>"

definition scenario_record :: "real \<Rightarrow> real \<Rightarrow> string \<Rightarrow> Signal" where
  "scenario_record s v l = \<lparr>score = Some s, volume_24h = Some v, liquidity = None,
     whale_count = None, unique_whale_count = None, spread = None, hours_remaining = None,
     level = l\<rparr>"

text \<open>A dashboard that displays one record, and a pull body that reports an error.\<close>

definition prior_dashboard :: "tab \<Rightarrow> string \<Rightarrow> dashboard" where
  "prior_dashboard tb st = \<lparr>signals = [scenario_record 6 2000 ''opportunity''],
     arbitrageOpps = [], isLive = True, isLoading = False, error = None, lastUpdate = Some 1,
     whaleTrades = [], activeTab = tb, hotStrategy = st\<rparr>"

definition error_body :: pull_body where
  "error_body = \<lparr>body_error = Some ''boom'',
     body_signals = Some [scenario_record 3 5000 ''opportunity''],
     body_opportunities = None\<rparr>"

text \<open>Two callback sets for the scenarios of the hook.\<close>

definition callbacks_A :: options where
  "callbacks_A = \<lparr>onSignalsUpdate_cb = Some 1, onWhaleTrade_cb = Some 2, onConnect_cb = Some 3,
     onDisconnect_cb = Some 4\<rparr>"

definition callbacks_B :: options where
  "callbacks_B = \<lparr>onSignalsUpdate_cb = Some 11, onWhaleTrade_cb = Some 12, onConnect_cb = Some 13,
     onDisconnect_cb = Some 14\<rparr>"

text \<open>
  A hook of the first version whose channel is open, and three decoded envelopes: one of
  an unknown type, a \<open>signals_update\<close> without data, and a \<open>signals_update\<close> with one
  signal and a cache age of zero.
\<close>

definition open_state :: hook_state where
  "open_state = run [Connect None, SocketOpened 0] (initial_state callbacks_A True)"

definition unknown_envelope :: jsval where
  "unknown_envelope = JObj [(''type'', JStr ''heartbeat''), (''data'', JObj [])]"

definition signals_envelope_without_data :: jsval where
  "signals_envelope_without_data = JObj [(''type'', JStr ''signals_update'')]"

definition signals_envelope :: jsval where
  "signals_envelope = JObj [(''type'', JStr ''signals_update''),
     (''data'', JObj [(''signals'', JArr [JObj [(''id'', JStr ''s1'')]]), (''cache_age'', JNum 0)])]"

section \<open>Properties of the filter engine\<close>

text \<open>
  The filter is conjunctive: a record is visible exactly when every predicate that is
  switched on for the view holds.  A comparison whose record field is absent never
  rejects the record.
\<close>

lemma signal_visible_conj:
  "signal_visible tb st p s \<longleftrightarrow>
     \<not> js_lt (score s) (minScore p)
   \<and> \<not> js_lt (volume_24h s) (minVolumeUsd p)
   \<and> \<not> js_lt (liquidity s) (minLiquidity p)
   \<and> (tb \<noteq> hot \<or> st = ''whale'' \<longrightarrow>
        \<not> js_lt (whale_count s) (minWhaleCount p)
      \<and> \<not> js_lt (unique_whale_count s) (minUniqueWhales p))
   \<and> (\<not> (tb = hot \<and> st = ''scalp'') \<and> maxSpread p > 0 \<longrightarrow> \<not> js_gt (spread s) (maxSpread p))
   \<and> (maxTimeHours p > 0 \<longrightarrow> \<not> js_gt (hours_remaining s) (maxTimeHours p))
   \<and> (level s \<noteq> ''watch'' \<or> showWatchLevel p)"
  unfolding signal_visible_def Let_def or_zero_def by auto

text \<open>
  Claim C3.  With the profile \<open>{minScore: 5, minVolumeUsd: 1000, maxSpread: 0,
  maxTimeHours: 0, showWatchLevel: false}\<close>, every other threshold zero, the three
  records (score 6, volume 2000, opportunity), (score 3, volume 5000, opportunity) and
  (score 8, volume 500, watch) are filtered to exactly the first record, whatever the
  active view and the strategy of the hot view.
\<close>

theorem scenario_yields_first_record:
  "filteredSignals tb st scenario_profile
     [scenario_record 6 2000 ''opportunity'', scenario_record 3 5000 ''opportunity'',
      scenario_record 8 500 ''watch'']
   = [scenario_record 6 2000 ''opportunity'']"
  by (simp add: filteredSignals_def signal_visible_def scenario_profile_def scenario_record_def
      js_lt_def js_gt_def or_zero_def Let_def)

theorem scenario_yields_first_record_witness:
  "filteredSignals scanner ''whale'' scenario_profile
     [scenario_record 6 2000 ''opportunity'', scenario_record 3 5000 ''opportunity'',
      scenario_record 8 500 ''watch'']
   = [scenario_record 6 2000 ''opportunity'']"
  using scenario_yields_first_record [of scanner "''whale''"] by simp

section \<open>Properties of the push handlers\<close>

lemma take_append_take: "take n (ys @ take n xs) = take n (ys @ xs)"
  by (simp add: min_def)

text \<open>The buffer after a run of whale-trade events, from any earlier content.\<close>

lemma onWhaleTrades_buffer:
  "whaleTrades (onWhaleTrades ts d) =
     (if ts = [] then whaleTrades d else take 20 (rev ts @ whaleTrades d))"
proof (induction ts arbitrary: d)
  case Nil
  show ?case by simp
next
  case (Cons t ts)
  have step: "whaleTrades (onWhaleTrade t d) = take 20 (t # whaleTrades d)"
    by (simp add: onWhaleTrade_def whale_buffer_update_def)
  show ?case
  proof (cases "ts = []")
    case True
    then show ?thesis using step by simp
  next
    case False
    then have "whaleTrades (onWhaleTrades (t # ts) d)
                 = take 20 (rev ts @ take 20 (t # whaleTrades d))"
      using Cons.IH [of "onWhaleTrade t d"] step by simp
    also have "\<dots> = take 20 (rev ts @ t # whaleTrades d)"
      by (rule take_append_take)
    finally show ?thesis by simp
  qed
qed

text \<open>
  Claim C9.  The whale-trade buffer is a bounded first-in-first-out cache of capacity 20.
  After any run of whale-trade events \<open>ts\<close> followed by the event \<open>t\<close>, starting from any
  buffer content, the buffer is the first 20 entries of the history written newest first
  (\<open>t\<close>, then \<open>ts\<close> from its last to its first, then the earlier content): it never holds
  more than 20 trades, the new trade is in it (the source puts it at the front of the
  array), and what is dropped on overflow is the oldest.
\<close>

theorem whale_buffer_bounded_fifo:
  "whaleTrades (onWhaleTrades (ts @ [t]) d) = take 20 (t # rev ts @ whaleTrades d)
   \<and> length (whaleTrades (onWhaleTrades (ts @ [t]) d)) \<le> 20
   \<and> hd (whaleTrades (onWhaleTrades (ts @ [t]) d)) = t"
  by (simp add: onWhaleTrades_buffer)

text \<open>
  Claim C10.  A \<open>signals_update\<close> push whose signal list is empty changes nothing in the
  dashboard: the displayed record set and the last-update time stay as they were (so do
  all other cells), in particular when the scanner view is active and live mode is on.
\<close>

theorem empty_push_dropped:
  "onSignalsUpdate now [] cached cacheAge wsError d = d"
  by (simp add: onSignalsUpdate_def)

section \<open>Properties of the pull\<close>

text \<open>The catch block sets an error message and keeps the record set.\<close>

lemma fetchSignals_catch_signals:
  "signals (fetchSignals_catch err d) = signals d"
  by (simp add: fetchSignals_catch_def Let_def)

lemma fetchSignals_catch_error:
  "error (fetchSignals_catch err d) \<noteq> None"
  by (simp add: fetchSignals_catch_def Let_def)

text \<open>
  Claim C4, as stated, fails.  A 2xx pull response with the error \<open>boom\<close> and one signal,
  received while one record is displayed, empties the displayed record set: the signal
  data of the response is not applied and the earlier record is not kept.
\<close>

theorem pull_error_clears_counterexample:
  "signals (prior_dashboard scanner ''whale'') = [scenario_record 6 2000 ''opportunity'']
   \<and> signals (fetchSignals 2 (Response 200 (JsonBody error_body)) (prior_dashboard scanner ''whale'')) = []
   \<and> error (fetchSignals 2 (Response 200 (JsonBody error_body)) (prior_dashboard scanner ''whale'')) = Some ''boom''"
  by (simp add: fetchSignals_def prior_dashboard_def error_body_def response_ok_def truthy_str_def)

text \<open>
  Claim C4, amended.  For every 2xx pull response of a signal listing (any view but the
  arbitrage strategy of the hot view) whose body carries a non-empty error string, the
  error string is surfaced verbatim, the displayed record set is cleared, and the
  last-update time is left as it was: signal data in the same response is not applied.
\<close>

theorem pull_server_error_clears:
  assumes "\<not> (activeTab d = hot \<and> hotStrategy d = ''arbitrage'')"
    and "response_ok status"
    and "truthy_str (body_error data)"
  shows "error (fetchSignals now (Response status (JsonBody data)) d) = body_error data
       \<and> signals (fetchSignals now (Response status (JsonBody data)) d) = []
       \<and> lastUpdate (fetchSignals now (Response status (JsonBody data)) d) = lastUpdate d"
  using assms by (auto simp add: fetchSignals_def Let_def)

theorem pull_server_error_clears_witness:
  "\<not> (activeTab (prior_dashboard scanner ''whale'') = hot
        \<and> hotStrategy (prior_dashboard scanner ''whale'') = ''arbitrage'')
   \<and> response_ok 200 \<and> truthy_str (body_error error_body)
   \<and> error (fetchSignals 2 (Response 200 (JsonBody error_body)) (prior_dashboard scanner ''whale''))
       = body_error error_body
   \<and> signals (fetchSignals 2 (Response 200 (JsonBody error_body)) (prior_dashboard scanner ''whale'')) = []
   \<and> lastUpdate (fetchSignals 2 (Response 200 (JsonBody error_body)) (prior_dashboard scanner ''whale''))
       = lastUpdate (prior_dashboard scanner ''whale'')"
proof -
  have h1: "\<not> (activeTab (prior_dashboard scanner ''whale'') = hot
        \<and> hotStrategy (prior_dashboard scanner ''whale'') = ''arbitrage'')"
    by (simp add: prior_dashboard_def)
  have h2: "response_ok 200" by (simp add: response_ok_def)
  have h3: "truthy_str (body_error error_body)" by (simp add: truthy_str_def error_body_def)
  show ?thesis using h1 h2 h3 pull_server_error_clears [OF h1 h2 h3, of 2] by simp
qed

text \<open>
  The listing branch and the catch block show an error on every failure.  A network
  failure (unless the thrown error has an empty message) and, outside the arbitrage
  strategy of the hot view, a non-2xx status set a non-empty error message, which the
  view displays; the displayed record set is kept in every case.
\<close>

lemma fetchSignals_catch_visible:
  "err \<noteq> ErrorObject [] \<Longrightarrow> truthy_str (error (fetchSignals_catch err d))"
  by (cases err) (simp_all add: fetchSignals_catch_def Let_def truthy_str_def msg_backend_down_def)

lemma listing_pull_failure_visible_error:
  "(err \<noteq> ErrorObject [] \<longrightarrow> truthy_str (error (fetchSignals now (FetchRejected err) d)))
   \<and> signals (fetchSignals now (FetchRejected err) d) = signals d
   \<and> (\<not> response_ok status \<longrightarrow>
        signals (fetchSignals now (Response status js) d) = signals d
      \<and> (\<not> (activeTab d = hot \<and> hotStrategy d = ''arbitrage'') \<longrightarrow>
           truthy_str (error (fetchSignals now (Response status js) d))))"
proof -
  have rejected: "fetchSignals now (FetchRejected err) d = fetchSignals_catch err (d\<lparr>error := None\<rparr>)"
    by (simp add: fetchSignals_def Let_def)
  have a: "signals (fetchSignals now (FetchRejected err) d) = signals d"
    unfolding rejected by (simp add: fetchSignals_catch_signals)
  have b: "truthy_str (error (fetchSignals now (FetchRejected err) d))" if "err \<noteq> ErrorObject []"
    unfolding rejected using that by (rule fetchSignals_catch_visible)
  have c: "signals (fetchSignals now (Response status js) d) = signals d"
    if "\<not> response_ok status"
    using that by (simp add: fetchSignals_def Let_def fetchSignals_catch_signals)
  have d: "truthy_str (error (fetchSignals now (Response status js) d))"
    if "\<not> response_ok status" and "\<not> (activeTab d = hot \<and> hotStrategy d = ''arbitrage'')"
  proof -
    let ?e = "ErrorObject (if status = 404 then msg_endpoint_not_found
                else ''HTTP '' @ string_of_nat status)"
    have eq: "fetchSignals now (Response status js) d = fetchSignals_catch ?e (d\<lparr>error := None\<rparr>)"
      using that by (auto simp add: fetchSignals_def Let_def)
    have ne: "?e \<noteq> ErrorObject []"
      by (simp add: msg_endpoint_not_found_def)
    show ?thesis unfolding eq using ne by (rule fetchSignals_catch_visible)
  qed
  show ?thesis using a b c d by blast
qed

text \<open>
  Claim C5 says that every pull that fails with a non-2xx status keeps the displayed
  record set and sets a non-null error message that the view shows.  The code in the hot
  view with the arbitrage strategy, at a response of status 500 received while one record
  is displayed: the record set is kept, but the error message stays null, so the view
  shows nothing.  The same response in the same view with the whale strategy goes
  through the listing branch and sets the message \<open>HTTP 500\<close>.
\<close>

theorem arbitrage_pull_failure_sets_no_error:
  "\<not> response_ok 500
   \<and> error (fetchSignals 2 (Response 500 (JsonBody error_body)) (prior_dashboard hot ''arbitrage''))
       = None
   \<and> signals (fetchSignals 2 (Response 500 (JsonBody error_body)) (prior_dashboard hot ''arbitrage''))
       = signals (prior_dashboard hot ''arbitrage'')
   \<and> error (fetchSignals 2 (Response 500 (JsonBody error_body)) (prior_dashboard hot ''whale''))
       = Some ''HTTP 500''"
  by (simp add: fetchSignals_def prior_dashboard_def response_ok_def fetchSignals_catch_def
      Let_def string_of_nat.simps digit_char_def e_acute_def)

section \<open>Properties of the connection hook\<close>

text \<open>What the helpers and the handlers leave untouched.\<close>

lemma frame_console_log [simp]:
  "sockets (console_log e s) = sockets s" "wsRef (console_log e s) = wsRef s"
  "timers (console_log e s) = timers s" "calls (console_log e s) = calls s"
  "callbacksRef (console_log e s) = callbacksRef s"
  by (simp_all add: console_log_def)

lemma frame_invoke [simp]:
  "sockets (invoke cb mk s) = sockets s" "wsRef (invoke cb mk s) = wsRef s"
  "timers (invoke cb mk s) = timers s" "pingIntervalRef (invoke cb mk s) = pingIntervalRef s"
  "next_timer (invoke cb mk s) = next_timer s"
  by (simp_all add: invoke_def split: option.splits)

lemma frame_set_timer [simp]:
  "sockets (set_timer d a s) = sockets s" "wsRef (set_timer d a s) = wsRef s"
  by (simp_all add: set_timer_def)

lemma frame_clear_ref [simp]:
  "sockets (clear_ref r s) = sockets s" "wsRef (clear_ref r s) = wsRef s"
  "pingIntervalRef (clear_ref r s) = pingIntervalRef s"
  "next_timer (clear_ref r s) = next_timer s"
  by (simp_all add: clear_ref_def clear_timer_def split: option.splits)

lemma frame_clear_timer [simp]:
  "sockets (clear_timer t s) = sockets s" "wsRef (clear_timer t s) = wsRef s"
  by (simp_all add: clear_timer_def)

lemma frame_ws_onopen [simp]:
  "sockets (ws_onopen i s) = sockets s" "wsRef (ws_onopen i s) = wsRef s"
  by (simp_all add: ws_onopen_def Let_def)

lemma frame_ws_onclose [simp]:
  "sockets (ws_onclose i s) = sockets s" "wsRef (ws_onclose i s) = wsRef s"
  by (simp_all add: ws_onclose_def Let_def)

lemma frame_ws_onerror [simp]:
  "sockets (ws_onerror i s) = sockets s" "wsRef (ws_onerror i s) = wsRef s"
  by (simp_all add: ws_onerror_def)

lemma frame_ws_onmessage [simp]:
  "sockets (ws_onmessage i m s) = sockets s" "wsRef (ws_onmessage i m s) = wsRef s"
  "timers (ws_onmessage i m s) = timers s"
  by (simp_all add: ws_onmessage_def split: option.splits)

lemma frame_ping [simp]:
  "sockets (ping i s) = sockets s" "wsRef (ping i s) = wsRef s"
  by (simp_all add: ping_def)

lemma frame_set_options [simp]:
  "sockets (set_options opts s) = sockets s" "wsRef (set_options opts s) = wsRef s"
  "timers (set_options opts s) = timers s"
  by (simp_all add: set_options_def)

lemma others_not_live_frame:
  "sockets s' = sockets s \<Longrightarrow> wsRef s' = wsRef s \<Longrightarrow> others_not_live s \<Longrightarrow> others_not_live s'"
  by (simp add: others_not_live_def)

lemma others_not_live_initial: "others_not_live (initial_state opts ok)"
  by (simp add: others_not_live_def sockets_inv_def initial_state_def)

text \<open>A list in which every position but one fails a test has at most one element that passes.\<close>

lemma at_most_one_satisfies:
  "(\<forall>j<length xs. j \<noteq> i \<longrightarrow> \<not> P (xs ! j)) \<Longrightarrow> length (filter P xs) \<le> 1"
proof (induction xs arbitrary: i)
  case Nil
  show ?case by simp
next
  case (Cons x xs)
  show ?case
  proof (cases i)
    case 0
    have "\<not> P (xs ! j)" if "j < length xs" for j
      using Cons.prems [rule_format, of "Suc j"] that 0 by simp
    then have "filter P xs = []"
      by (auto simp add: filter_empty_conv in_set_conv_nth)
    then show ?thesis by simp
  next
    case (Suc k)
    have "\<not> P x" using Cons.prems [rule_format, of 0] Suc by simp
    moreover have "\<forall>j<length xs. j \<noteq> k \<longrightarrow> \<not> P (xs ! j)"
    proof (intro allI impI)
      fix j assume "j < length xs" "j \<noteq> k"
      then show "\<not> P (xs ! j)" using Cons.prems [rule_format, of "Suc j"] Suc by simp
    qed
    ultimately show ?thesis using Cons.IH [of k] by simp
  qed
qed

lemma others_not_live_count: "others_not_live s \<Longrightarrow> live_count s \<le> 1"
proof -
  assume inv: "others_not_live s"
  show ?thesis
  proof (cases "wsRef s")
    case None
    then have "\<forall>j<length (sockets s). j \<noteq> length (sockets s) \<longrightarrow> \<not> is_live (sockets s ! j)"
      using inv by (simp add: others_not_live_def sockets_inv_def)
    then show ?thesis unfolding live_count_def by (rule at_most_one_satisfies)
  next
    case (Some i)
    then have "\<forall>j<length (sockets s). j \<noteq> i \<longrightarrow> \<not> is_live (sockets s ! j)"
      using inv by (auto simp add: others_not_live_def sockets_inv_def)
    then show ?thesis unfolding live_count_def by (rule at_most_one_satisfies)
  qed
qed

lemma socket_state_frame:
  "sockets s' = sockets s \<Longrightarrow> socket_state s' i = socket_state s i"
  by (simp add: socket_state_def)

lemma current_readyState_frame:
  "sockets s' = sockets s \<Longrightarrow> wsRef s' = wsRef s \<Longrightarrow> current_readyState s' = current_readyState s"
  by (cases "wsRef s") (simp_all add: current_readyState_def socket_state_def)

lemma others_not_live_connect:
  assumes "others_not_live s" and "current_readyState s \<noteq> Some CONNECTING"
  shows "others_not_live (connect env s)"
proof (cases "current_readyState s = Some OPEN \<or> \<not> url_ok s")
  case True
  then show ?thesis using assms(1)
    by (auto simp add: connect_def others_not_live_def)
next
  case False
  then have eq: "sockets (connect env s) = sockets s @ [\<lparr>readyState = CONNECTING, closure_options = env\<rparr>]"
    "wsRef (connect env s) = Some (length (sockets s))"
    by (simp_all add: connect_def)
  have "\<not> is_live (sockets s ! j)" if "j < length (sockets s)" for j
  proof (cases "wsRef s = Some j")
    case True
    then have "current_readyState s = Some (readyState (sockets s ! j))"
      using that by (simp add: current_readyState_def socket_state_def)
    then show ?thesis using False assms(2) by (auto simp add: is_live_def)
  next
    case False
    then show ?thesis using assms(1) that by (simp add: others_not_live_def sockets_inv_def)
  qed
  then show ?thesis
    by (auto simp add: others_not_live_def sockets_inv_def eq nth_append)
qed

lemma readyState_after_set:
  "j < length (sockets s) \<Longrightarrow>
     readyState (sockets (set_readyState i r s) ! j)
       = (if j = i then r else readyState (sockets s ! j))"
  by (simp add: set_readyState_def nth_list_update)

lemma frame_set_readyState [simp]:
  "length (sockets (set_readyState i r s)) = length (sockets s)"
  "wsRef (set_readyState i r s) = wsRef s"
  by (simp_all add: set_readyState_def)

lemma others_not_live_set_not_live:
  assumes "others_not_live s" and "r = CLOSING \<or> r = CLOSED"
  shows "others_not_live (set_readyState i r s)"
proof -
  have "\<not> is_live (sockets (set_readyState i r s) ! j)"
    if "j < length (sockets s)" "wsRef s \<noteq> Some j" for j
  proof (cases "j = i")
    case True
    then show ?thesis using that assms(2) by (auto simp add: is_live_def readyState_after_set)
  next
    case False
    then show ?thesis using that assms(1)
      by (simp add: is_live_def readyState_after_set others_not_live_def sockets_inv_def)
  qed
  then show ?thesis using assms(1)
    by (auto simp add: others_not_live_def sockets_inv_def split: option.splits)
qed

lemma others_not_live_set_open:
  assumes "others_not_live s" and "socket_state s i = Some CONNECTING"
  shows "others_not_live (set_readyState i OPEN s)"
proof -
  have i: "i < length (sockets s)" "is_live (sockets s ! i)"
    using assms(2) by (auto simp add: socket_state_def is_live_def split: if_splits)
  then have r: "wsRef s = Some i"
    using assms(1) by (auto simp add: others_not_live_def sockets_inv_def)
  have "\<not> is_live (sockets (set_readyState i OPEN s) ! j)"
    if "j < length (sockets s)" "j \<noteq> i" for j
    using that assms(1) r
    by (simp add: is_live_def readyState_after_set others_not_live_def sockets_inv_def)
  then show ?thesis using r i
    by (auto simp add: others_not_live_def sockets_inv_def)
qed

lemma disconnect_wsRef: "wsRef (disconnect s) = None"
  by (simp add: disconnect_def Let_def split: option.splits)

lemma others_not_live_disconnect:
  assumes "others_not_live s"
  shows "others_not_live (disconnect s)"
proof (cases "wsRef s")
  case None
  then show ?thesis using assms
    by (simp add: disconnect_def Let_def others_not_live_def)
next
  case (Some i)
  let ?s2 = "clear_ref (pingIntervalRef (clear_ref (reconnectTimeoutRef s) s)) (clear_ref (reconnectTimeoutRef s) s)"
  have fr: "sockets ?s2 = sockets s" "wsRef ?s2 = wsRef s" by simp_all
  have d: "disconnect s = (ws_close i ?s2)\<lparr>wsRef := None\<rparr>"
    using Some by (simp add: disconnect_def Let_def)
  have "\<not> is_live (sockets (ws_close i ?s2) ! j)" if "j < length (sockets (ws_close i ?s2))" for j
  proof (cases "j = i")
    case True
    then show ?thesis using that fr
      by (auto simp add: ws_close_def set_readyState_def socket_state_def is_live_def)
  next
    case False
    then show ?thesis using that fr assms Some
      by (auto simp add: ws_close_def set_readyState_def socket_state_def others_not_live_def
          sockets_inv_def split: if_splits)
  qed
  then show ?thesis unfolding d by (simp add: others_not_live_def sockets_inv_def)
qed

lemma current_readyState_disconnect: "current_readyState (disconnect s) = None"
  by (simp add: current_readyState_def disconnect_wsRef)

text \<open>Every event that does not call \<open>connect\<close> on a connecting socket keeps the invariant.\<close>

lemma others_not_live_step:
  assumes "others_not_live s" and "\<not> opens_while_connecting e s"
  shows "others_not_live (step e s)"
proof (cases e)
  case (Connect env)
  then show ?thesis using assms by (simp add: others_not_live_connect)
next
  case Disconnect
  then show ?thesis using assms by (simp add: others_not_live_disconnect)
next
  case (OptionsChanged opts)
  then show ?thesis using assms by (simp add: others_not_live_def)
next
  case (OptionsChanged2 opts)
  then show ?thesis using assms
    by (simp add: options_changed2_def others_not_live_connect others_not_live_disconnect
        current_readyState_disconnect)
next
  case (SocketOpened i)
  then show ?thesis using assms others_not_live_set_open [of s i]
    by (auto simp add: others_not_live_def)
next
  case (SocketMessage i m)
  then show ?thesis using assms by (simp add: others_not_live_def)
next
  case (SocketError i)
  then show ?thesis using assms by (simp add: others_not_live_def)
next
  case (SocketClosed i)
  then show ?thesis using assms others_not_live_set_not_live [of s CLOSED i]
    by (auto simp add: others_not_live_def)
next
  case (TimerFired t)
  show ?thesis
  proof (cases "map_of (timers s) t")
    case None
    then show ?thesis using TimerFired assms by (simp add: fire_timer_def)
  next
    case (Some da)
    obtain delay a where da: "da = (delay, a)" by (cases da)
    show ?thesis
    proof (cases a)
      case (ReconnectTimeout env)
      let ?s1 = "console_log LogReconnecting (clear_timer t s)"
      have "current_readyState ?s1 = current_readyState s"
        by (rule current_readyState_frame) simp_all
      moreover have "current_readyState s \<noteq> Some CONNECTING"
        using assms(2) TimerFired Some da ReconnectTimeout by simp
      moreover have "others_not_live ?s1"
        using assms(1) by (simp add: others_not_live_def)
      ultimately have "others_not_live (connect env ?s1)"
        by (simp add: others_not_live_connect)
      then show ?thesis using TimerFired Some da ReconnectTimeout by (simp add: fire_timer_def)
    next
      case (PingInterval i)
      then show ?thesis using TimerFired Some da assms(1)
        by (simp add: fire_timer_def others_not_live_def)
    qed
  qed
qed

lemma others_not_live_run:
  "others_not_live s \<Longrightarrow> never_opens_while_connecting es s \<Longrightarrow> others_not_live (run es s)"
proof (induction es arbitrary: s)
  case Nil
  then show ?case by simp
next
  case (Cons e es)
  from Cons.prems(2) have g: "\<not> opens_while_connecting e s"
    and rest: "never_opens_while_connecting es (step e s)"
    by (simp_all split: if_splits)
  have "others_not_live (step e s)" using Cons.prems(1) g by (rule others_not_live_step)
  then show ?case using Cons.IH rest by simp
qed

lemma connect_noop_when_open: "current_readyState s = Some OPEN \<Longrightarrow> connect env s = s"
  by (simp add: connect_def)

text \<open>The hook after \<open>connect\<close> at mount and a successful handshake.\<close>

lemma open_state_eq:
  "open_state = \<lparr>sockets = [\<lparr>readyState = OPEN, closure_options = None\<rparr>], wsRef = Some 0,
     reconnectTimeoutRef = None, pingIntervalRef = Some 1,
     timers = [(1, 25000, PingInterval 0)], next_timer = 2, isConnected = True,
     connectionError = None, callbacksRef = callbacks_A, pings_sent = [],
     calls = [ConnectCall 3], console = [LogConnected], url_ok = True\<rparr>"
  by (simp add: open_state_def initial_state_def connect_def current_readyState_def
      socket_state_def set_readyState_def ws_onopen_def Let_def console_log_def invoke_def
      callbacks_of_def callbacks_A_def set_timer_def)

lemmas hook_defs = initial_state_def connect_def disconnect_def current_readyState_def
  socket_state_def set_readyState_def ws_onopen_def ws_onclose_def ws_close_def Let_def
  console_log_def invoke_def callbacks_of_def set_timer_def clear_ref_def clear_timer_def
  socket_closure_def fire_timer_def options_changed2_def

text \<open>
  Claim C1, as stated, fails.  After \<open>connect\<close> at mount the channel is connecting; a
  second call of \<open>connect\<close> before the handshake ends creates a second channel, and two
  channels are live.
\<close>

theorem second_connect_counterexample:
  "current_readyState (run [Connect None] (initial_state callbacks_A True)) = Some CONNECTING
   \<and> live_count (run [Connect None] (initial_state callbacks_A True)) = 1
   \<and> live_count (run [Connect None, Connect None] (initial_state callbacks_A True)) = 2"
  by (simp add: initial_state_def connect_def current_readyState_def socket_state_def
      live_count_def is_live_def)

text \<open>A call of \<open>connect\<close> on a connecting channel adds a live channel.\<close>

lemma connect_while_connecting:
  "current_readyState s = Some CONNECTING \<Longrightarrow> url_ok s \<Longrightarrow>
     live_count (connect env s) = Suc (live_count s) \<and> connect env s \<noteq> s"
proof -
  assume c: "current_readyState s = Some CONNECTING" and u: "url_ok s"
  have eq: "sockets (connect env s) = sockets s @ [\<lparr>readyState = CONNECTING, closure_options = env\<rparr>]"
    using c u by (simp add: connect_def)
  then have "live_count (connect env s) = Suc (live_count s)"
    by (simp add: live_count_def is_live_def)
  moreover have "connect env s \<noteq> s"
  proof
    assume "connect env s = s"
    then have "sockets (connect env s) = sockets s" by simp
    then show False using eq by simp
  qed
  ultimately show ?thesis by simp
qed

text \<open>
  Claim C1, amended.  Calling \<open>connect\<close> while the current channel is open is a no-op
  and creates no channel.  Calling it while the current channel is still connecting (and
  the socket address is accepted) creates one more live channel.  From the initial
  state, after every sequence of events in which \<open>connect\<close> is never called (directly
  or by a reconnect timer) while the current channel is still connecting, at most one
  channel is live (connecting or open).
\<close>

theorem one_live_channel:
  "(current_readyState s = Some OPEN \<longrightarrow> connect env s = s)
   \<and> (current_readyState s' = Some CONNECTING \<and> url_ok s' \<longrightarrow>
        live_count (connect env s') = Suc (live_count s') \<and> connect env s' \<noteq> s')
   \<and> (never_opens_while_connecting es (initial_state opts ok) \<longrightarrow>
        live_count (run es (initial_state opts ok)) \<le> 1)"
  using connect_noop_when_open connect_while_connecting
    others_not_live_run [OF others_not_live_initial] others_not_live_count by blast

theorem one_live_channel_witness:
  "current_readyState open_state = Some OPEN
   \<and> connect None open_state = open_state
   \<and> current_readyState (run [Connect None] (initial_state callbacks_A True)) = Some CONNECTING
   \<and> url_ok (run [Connect None] (initial_state callbacks_A True))
   \<and> live_count (connect None (run [Connect None] (initial_state callbacks_A True)))
       = Suc (live_count (run [Connect None] (initial_state callbacks_A True)))
   \<and> never_opens_while_connecting
        [Connect None, SocketOpened 0, Connect None, SocketClosed 0, TimerFired 2]
        (initial_state callbacks_A True)
   \<and> live_count (run [Connect None, SocketOpened 0, Connect None, SocketClosed 0, TimerFired 2]
        (initial_state callbacks_A True)) \<le> 1"
proof -
  have h1: "current_readyState open_state = Some OPEN"
    by (simp add: open_state_eq current_readyState_def socket_state_def)
  have h2: "never_opens_while_connecting
        [Connect None, SocketOpened 0, Connect None, SocketClosed 0, TimerFired 2]
        (initial_state callbacks_A True)"
    by (simp add: initial_state_def connect_def current_readyState_def
      socket_state_def set_readyState_def ws_onopen_def ws_onclose_def Let_def console_log_def
      invoke_def callbacks_of_def callbacks_A_def set_timer_def clear_ref_def clear_timer_def
      socket_closure_def)
  have h3: "current_readyState (run [Connect None] (initial_state callbacks_A True)) = Some CONNECTING"
    and h4: "url_ok (run [Connect None] (initial_state callbacks_A True))"
    by (simp_all add: initial_state_def connect_def current_readyState_def socket_state_def)
  show ?thesis
    using h1 h2 h3 h4
      one_live_channel [where s = open_state and env = None
        and s' = "run [Connect None] (initial_state callbacks_A True)"
        and es = "[Connect None, SocketOpened 0, Connect None, SocketClosed 0, TimerFired 2]"
        and opts = callbacks_A and ok = True]
    by simp
qed

text \<open>
  The two halves of the reconnect policy that the code does implement: a closure event
  cancels the ping interval and schedules exactly one reconnect timeout, of 5000
  milliseconds; \<open>disconnect\<close> cancels the timers the refs point to.
\<close>

lemma ws_onclose_schedules_one_reconnect:
  "timers (ws_onclose i s) =
     filter (\<lambda>e. Some (fst e) \<noteq> pingIntervalRef s) (timers s)
       @ [(next_timer s, 5000, ReconnectTimeout (socket_closure s i))]
   \<and> reconnectTimeoutRef (ws_onclose i s) = Some (next_timer s)"
  by (cases "pingIntervalRef s")
     (auto simp add: ws_onclose_def Let_def console_log_def invoke_def set_timer_def clear_ref_def
       clear_timer_def socket_closure_def split: option.splits)

lemma disconnect_cancels_referenced_timers:
  "timers (disconnect s) =
     filter (\<lambda>e. Some (fst e) \<noteq> reconnectTimeoutRef s \<and> Some (fst e) \<noteq> pingIntervalRef s)
       (timers s)"
  by (cases "reconnectTimeoutRef s"; cases "pingIntervalRef s"; cases "wsRef s")
     (auto simp add: disconnect_def Let_def clear_ref_def clear_timer_def ws_close_def
       set_readyState_def intro: filter_cong)

text \<open>
  Claim C2 says that after an explicit \<open>disconnect\<close> no reconnect is ever scheduled.
  The code at the input \<open>connect\<close>, handshake, \<open>disconnect\<close>, closure event of the socket:
  \<open>disconnect\<close> leaves no timer pending, but the \<open>close\<close> handler of the socket that
  \<open>disconnect\<close> closed then schedules a reconnect timeout of 5000 milliseconds, and when
  it fires a new channel is opened.
\<close>

theorem explicit_close_still_reconnects:
  "timers (run [Connect None, SocketOpened 0, Disconnect] (initial_state callbacks_A True)) = []
   \<and> timers (run [Connect None, SocketOpened 0, Disconnect, SocketClosed 0]
        (initial_state callbacks_A True)) = [(2, 5000, ReconnectTimeout None)]
   \<and> map readyState (sockets (run [Connect None, SocketOpened 0, Disconnect, SocketClosed 0,
        TimerFired 2] (initial_state callbacks_A True))) = [CLOSED, CONNECTING]"
  by (simp add: hook_defs callbacks_A_def)

text \<open>
  Claim C7 says that a change of the callbacks never closes or reopens the channel.  The
  second version of the hook at the input \<open>connect\<close>, handshake, new options: the open
  channel is closed and a new one is created.
\<close>

theorem second_version_rebuilds_channel:
  "map readyState (sockets (run [Connect (Some callbacks_A), SocketOpened 0]
      (initial_state callbacks_A True))) = [OPEN]
   \<and> map readyState (sockets (run [Connect (Some callbacks_A), SocketOpened 0,
      OptionsChanged2 callbacks_B] (initial_state callbacks_A True))) = [CLOSING, CONNECTING]
   \<and> wsRef (run [Connect (Some callbacks_A), SocketOpened 0,
      OptionsChanged2 callbacks_B] (initial_state callbacks_A True)) = Some 1"
  by (simp add: hook_defs callbacks_A_def)

text \<open>
  The first version of the hook does what claim C7 says: a change of the options
  touches neither the sockets nor the timers, and the handlers of a socket then see the
  new callbacks.
\<close>

lemma first_version_keeps_channel:
  "sockets (step (OptionsChanged opts) s) = sockets s
   \<and> wsRef (step (OptionsChanged opts) s) = wsRef s
   \<and> timers (step (OptionsChanged opts) s) = timers s
   \<and> (socket_closure s i = None \<longrightarrow> callbacks_of (step (OptionsChanged opts) s) i = opts)"
  by (simp add: set_options_def callbacks_of_def socket_closure_def split: option.splits)

text \<open>
  Claim C6, as stated, fails.  A \<open>signals_update\<close> envelope without data, delivered on
  the open channel of a hook whose on-signals callback is registered, calls no callback.
\<close>

theorem signals_update_without_data_counterexample:
  "onSignalsUpdate_cb (callbacks_of open_state 0) = Some 1
   \<and> calls (step (SocketMessage 0 (Some signals_envelope_without_data)) open_state)
       = calls open_state"
  by (simp add: open_state_eq signals_envelope_without_data_def ws_onmessage_def
      callbacks_of_def callbacks_A_def socket_state_def)

text \<open>
  Claim C6, amended.  For every decoded envelope of type \<open>signals_update\<close> whose \<open>data\<close>
  is truthy, the dispatcher calls the on-signals callback, if one is registered, once and
  with four values: \<open>data.signals\<close>, or the empty list when that is absent or falsy;
  \<open>data.cached\<close>, or false; \<open>data.cache_age\<close>, or null when that is absent or falsy
  (zero included); the \<open>error\<close> of the envelope, or null when that is absent or falsy
  (the empty string included).  Nothing else in the state changes.  An envelope of type
  \<open>signals_update\<close> whose \<open>data\<close> is absent or falsy calls no callback and changes
  nothing.
\<close>

theorem signals_update_dispatch:
  assumes "get_prop message ''type'' = JStr ''signals_update''"
  shows "ws_onmessage i (Some message) s =
    (if truthy (get_prop message ''data'') then
       (case onSignalsUpdate_cb (callbacks_of s i) of
          None \<Rightarrow> s
        | Some f \<Rightarrow> s\<lparr>calls := calls s @ [SignalsUpdateCall f
            (js_or (get_prop (get_prop message ''data'') ''signals'') (JArr []))
            (js_or (get_prop (get_prop message ''data'') ''cached'') (JBool False))
            (js_or (get_prop (get_prop message ''data'') ''cache_age'') JNull)
            (js_or (get_prop message ''error'') JNull)]\<rparr>)
     else s)"
proof -
  have "message \<noteq> JNull" "message \<noteq> JUndefined" using assms by auto
  then show ?thesis using assms by (simp add: ws_onmessage_def invoke_def)
qed

theorem signals_update_dispatch_witness:
  "get_prop signals_envelope ''type'' = JStr ''signals_update''
   \<and> truthy (get_prop signals_envelope ''data'')
   \<and> ws_onmessage 0 (Some signals_envelope) open_state =
       open_state\<lparr>calls := calls open_state @ [SignalsUpdateCall 1
         (JArr [JObj [(''id'', JStr ''s1'')]]) (JBool False) JNull JNull]\<rparr>
   \<and> get_prop signals_envelope_without_data ''type'' = JStr ''signals_update''
   \<and> ws_onmessage 0 (Some signals_envelope_without_data) open_state = open_state"
proof -
  have h1: "get_prop signals_envelope ''type'' = JStr ''signals_update''"
    by (simp add: signals_envelope_def)
  have h2: "truthy (get_prop signals_envelope ''data'')"
    by (simp add: signals_envelope_def)
  have h3: "get_prop signals_envelope_without_data ''type'' = JStr ''signals_update''"
    by (simp add: signals_envelope_without_data_def)
  have h4: "\<not> truthy (get_prop signals_envelope_without_data ''data'')"
    by (simp add: signals_envelope_without_data_def)
  have cb: "onSignalsUpdate_cb (callbacks_of open_state 0) = Some 1"
    by (simp add: open_state_eq callbacks_of_def callbacks_A_def)
  show ?thesis
    using h1 h2 h3 h4 signals_update_dispatch [OF h1, of 0 open_state]
      signals_update_dispatch [OF h3, of 0 open_state]
    by (simp add: cb signals_envelope_def js_or_def)
qed

text \<open>
  Claim C8.  A decoded envelope whose type is none of \<open>signals_update\<close>, \<open>whale_trade\<close>,
  \<open>connection_ack\<close> and \<open>pong\<close> is dropped: the handler only writes a line to the
  console, so no callback is called, the connection error and the connected flag stay as
  they were, and the sockets, the current socket and the timers are unchanged.
\<close>

theorem unknown_type_dropped:
  assumes "message \<noteq> JNull" and "message \<noteq> JUndefined"
    and "get_prop message ''type'' \<notin> {JStr ''signals_update'', JStr ''whale_trade'',
           JStr ''connection_ack'', JStr ''pong''}"
  shows "ws_onmessage i (Some message) s
           = s\<lparr>console := console s @ [LogUnknownType (get_prop message ''type'')]\<rparr>
       \<and> calls (step (SocketMessage i (Some message)) s) = calls s
       \<and> connectionError (step (SocketMessage i (Some message)) s) = connectionError s
       \<and> isConnected (step (SocketMessage i (Some message)) s) = isConnected s
       \<and> sockets (step (SocketMessage i (Some message)) s) = sockets s
       \<and> wsRef (step (SocketMessage i (Some message)) s) = wsRef s
       \<and> timers (step (SocketMessage i (Some message)) s) = timers s"
  using assms by (simp add: ws_onmessage_def console_log_def)

theorem unknown_type_dropped_witness:
  "unknown_envelope \<noteq> JNull \<and> unknown_envelope \<noteq> JUndefined
   \<and> get_prop unknown_envelope ''type'' \<notin> {JStr ''signals_update'', JStr ''whale_trade'',
           JStr ''connection_ack'', JStr ''pong''}
   \<and> socket_state open_state 0 = Some OPEN
   \<and> step (SocketMessage 0 (Some unknown_envelope)) open_state
       = open_state\<lparr>console := console open_state @ [LogUnknownType (JStr ''heartbeat'')]\<rparr>
   \<and> calls (step (SocketMessage 0 (Some unknown_envelope)) open_state) = calls open_state
   \<and> connectionError (step (SocketMessage 0 (Some unknown_envelope)) open_state)
       = connectionError open_state"
proof -
  have h1: "unknown_envelope \<noteq> JNull" and h2: "unknown_envelope \<noteq> JUndefined"
    by (simp_all add: unknown_envelope_def)
  have h3: "get_prop unknown_envelope ''type'' \<notin> {JStr ''signals_update'', JStr ''whale_trade'',
           JStr ''connection_ack'', JStr ''pong''}"
    by (simp add: unknown_envelope_def)
  have h4: "socket_state open_state 0 = Some OPEN"
    by (simp add: open_state_eq socket_state_def)
  have t: "get_prop unknown_envelope ''type'' = JStr ''heartbeat''"
    by (simp add: unknown_envelope_def)
  show ?thesis
    using h1 h2 h3 h4 unknown_type_dropped [OF h1 h2 h3, of 0 open_state]
    by (simp add: t)
qed

end
